theory Spec2Isabelle
  imports
    Main
    "HOL-Library.Multiset"
    "HOL-Library.Char_ord"
    "HOL-Library.List_Lexorder"
    "HOL-Library.Product_Lexorder"
begin

section \<open>Data model (parser/parser.go)\<close>

text \<open>
  Go \<open>error\<close> values are modelled by their message. Go strings are byte strings:
  \<open>string\<close> is \<open>char list\<close> and a \<open>char\<close> is one byte.
\<close>

datatype error = Error string

text \<open>
  \<open>type Bookmark struct\<close>. \<open>ID\<close> and \<open>DuplicateOf\<close> are \<open>int64\<close> in the source; the
  program never does arithmetic on them (the store assigns ids), so they are \<open>int\<close>.
\<close>

record Bookmark =
  ID :: int
  Title :: string
  URL :: string
  Folder :: string
  Dead :: bool
  Redirect :: bool
  RedirectURL :: string
  Duplicate :: bool
  DuplicateOf :: int

text \<open>The zero value \<open>Bookmark{}\<close> of a composite literal that names no field.\<close>

definition Bookmark_zero :: Bookmark where
  "Bookmark_zero =
     \<lparr>ID = 0, Title = '''', URL = '''', Folder = '''', Dead = False, Redirect = False,
      RedirectURL = '''', Duplicate = False, DuplicateOf = 0\<rparr>"

section \<open>The document tree handed to the parser\<close>

text \<open>
  \<open>html.Parse\<close> (golang.org/x/net/html) is a library outside the repository. Its result
  is a tree of \<open>html.Node\<close>: the fields the program reads are \<open>Type\<close>, \<open>Data\<close> (the
  lower-cased tag name of an element, the text of a text node), \<open>Attr\<close> and the chain
  \<open>FirstChild\<close>, \<open>NextSibling\<close>, which is the list \<open>Children\<close> here.
\<close>

datatype NodeType =
  ErrorNode | TextNode | DocumentNode | ElementNode | CommentNode | DoctypeNode | RawNode

record Attribute =
  Namespace :: string
  Key :: string
  Val :: string

datatype Node =
  Node (Type: NodeType) (Data: string) (Attr: "Attribute list") (Children: "Node list")

section \<open>strings.TrimSpace\<close>

text \<open>
  \<open>strings.TrimSpace\<close> removes leading and trailing white space as \<open>unicode.IsSpace\<close>
  defines it. On a byte string that is: the six ASCII bytes tab, line feed, vertical tab,
  form feed, carriage return and space, and the UTF-8 encodings of U+0085, U+00A0, U+1680,
  U+2000 to U+200A, U+2028, U+2029, U+202F, U+205F and U+3000. A byte sequence that is not
  the valid encoding of one of these runes is not white space.
\<close>

definition White_Space :: "string list" where
  "White_Space =
     map (\<lambda>c. [c]) [CHR 0x09, CHR 0x0A, CHR 0x0B, CHR 0x0C, CHR 0x0D, CHR 0x20]
     @ [[CHR 0xC2, CHR 0x85], [CHR 0xC2, CHR 0xA0], [CHR 0xE1, CHR 0x9A, CHR 0x80]]
     @ map (\<lambda>c. [CHR 0xE2, CHR 0x80, c])
         [CHR 0x80, CHR 0x81, CHR 0x82, CHR 0x83, CHR 0x84, CHR 0x85, CHR 0x86, CHR 0x87,
          CHR 0x88, CHR 0x89, CHR 0x8A, CHR 0xA8, CHR 0xA9, CHR 0xAF]
     @ [[CHR 0xE2, CHR 0x81, CHR 0x9F], [CHR 0xE3, CHR 0x80, CHR 0x80]]"

text \<open>The first of the codes \<open>ws\<close> that \<open>s\<close> starts with, if any.\<close>

definition leading_code :: "string list \<Rightarrow> string \<Rightarrow> string option" where
  "leading_code ws s = List.find (\<lambda>w. w \<noteq> [] \<and> take (length w) s = w) ws"

function strip_left :: "string list \<Rightarrow> string \<Rightarrow> string" where
  "strip_left ws s =
     (case leading_code ws s of
        None \<Rightarrow> s
      | Some w \<Rightarrow> strip_left ws (drop (length w) s))"
  by pat_completeness auto
termination
proof (relation "measure (\<lambda>(ws, s). length s)")
  show "wf (measure (\<lambda>(ws, s). length s))" by simp
next
  fix ws :: "string list" and s w :: string
  assume "leading_code ws s = Some w"
  then have w: "w \<noteq> []" "take (length w) s = w"
    by (auto simp: leading_code_def find_Some_iff)
  have "length w \<le> length s"
  proof (rule ccontr)
    assume "\<not> length w \<le> length s"
    then have "length (take (length w) s) < length w" by simp
    with w(2) show False by simp
  qed
  with w(1) show "((ws, drop (length w) s), (ws, s)) \<in> measure (\<lambda>(ws, s). length s)"
    by (cases w) auto
qed

declare strip_left.simps [simp del]

definition TrimSpace :: "string \<Rightarrow> string" where
  "TrimSpace s = rev (strip_left (map rev White_Space) (rev (strip_left White_Space s)))"

section \<open>Parse\<close>

text \<open>
  The two variables the closure \<open>traverse\<close> captures: \<open>var bookmarks []Bookmark\<close> and
  \<open>var currentFolder string\<close>.
\<close>

record parse_state =
  bookmarks :: "Bookmark list"
  currentFolder :: string

text \<open>
  The attribute loop of the \<open>"a"\<close> case: the value of the first attribute whose key is
  \<open>href\<close>, the empty string (the zero value of \<open>url\<close>) when there is none.
\<close>

fun href :: "Attribute list \<Rightarrow> string" where
  "href [] = ''''"
| "href (attr # attrs) = (if Key attr = ''href'' then Val attr else href attrs)"

text \<open>
  The body of \<open>traverse\<close> before its loop over the children: the \<open>switch n.Data\<close> on an
  element node. \<open>n.FirstChild.Data\<close> is read only when \<open>n.FirstChild != nil\<close>.
\<close>

definition visit :: "Node \<Rightarrow> parse_state \<Rightarrow> parse_state" where
  "visit n st =
     (if Type n = ElementNode then
        (if Data n = ''h3'' then
           (case Children n of
              [] \<Rightarrow> st
            | c # _ \<Rightarrow> st\<lparr>currentFolder := Data c\<rparr>)
         else if Data n = ''a'' then
           (let url = href (Attr n);
                title = (case Children n of [] \<Rightarrow> '''' | c # _ \<Rightarrow> Data c)
            in if url \<noteq> '''' \<and> title \<noteq> '''' then
                 st\<lparr>bookmarks := bookmarks st @
                   [Bookmark_zero\<lparr>Title := TrimSpace title, URL := url,
                      Folder := currentFolder st\<rparr>]\<rparr>
               else st)
         else st)
      else st)"

text \<open>
  \<open>traverse\<close>: the switch, then \<open>for c := n.FirstChild; c != nil; c = c.NextSibling\<close>
  calling \<open>traverse(c)\<close>.
\<close>

fun traverse :: "Node \<Rightarrow> parse_state \<Rightarrow> parse_state"
  and traverse_siblings :: "Node list \<Rightarrow> parse_state \<Rightarrow> parse_state" where
  "traverse (Node ty d as cs) st = traverse_siblings cs (visit (Node ty d as cs) st)"
| "traverse_siblings [] st = st"
| "traverse_siblings (c # cs) st = traverse_siblings cs (traverse c st)"

text \<open>
  \<open>Parse\<close>. Its argument is what \<open>html.Parse(r)\<close> returned for the reader: an error, or
  the document node.
\<close>

definition Parse :: "error + Node \<Rightarrow> error + Bookmark list" where
  "Parse parsed =
     (case parsed of
        Inl e \<Rightarrow> Inl e
      | Inr doc \<Rightarrow> Inr (bookmarks (traverse doc \<lparr>bookmarks = [], currentFolder = ''''\<rparr>)))"











text \<open>Small documents used as concrete inputs.\<close>

definition text_node :: "string \<Rightarrow> Node" where
  "text_node s = Node TextNode s [] []"

definition element :: "string \<Rightarrow> Attribute list \<Rightarrow> Node list \<Rightarrow> Node" where
  "element tag as cs = Node ElementNode tag as cs"

definition link :: "string \<Rightarrow> string \<Rightarrow> Node" where
  "link u t = element ''a'' [\<lparr>Namespace = '''', Key = ''href'', Val = u\<rparr>] [text_node t]"





text \<open>
  An outer folder with a link, a nested folder with a link, and a last link that is again
  a sibling of the outer folder's entries, after the nested list has closed.
\<close>

definition doc_nested :: Node where
  "doc_nested =
     Node DocumentNode '''' []
       [element ''dl'' []
          [element ''dt'' [] [element ''h3'' [] [text_node ''Outer'']],
           element ''dl'' []
             [element ''dt'' [] [link ''u1'' ''first''],
              element ''dt'' [] [element ''h3'' [] [text_node ''Inner'']],
              element ''dl'' [] [element ''dt'' [] [link ''u2'' ''second'']],
              element ''dt'' [] [link ''u3'' ''third'']]]]"

text \<open>A link whose text is a single space: \<^verbatim>\<open><a href="http://example.com"> </a>\<close>.\<close>

definition doc_blank_title :: Node where
  "doc_blank_title = Node DocumentNode '''' [] [link ''http://example.com'' '' '']"

section \<open>The store\<close>

text \<open>
  One row of the table \<open>bookmarks\<close> that \<open>InitDB\<close> creates. The column \<open>id\<close> is
  \<open>id_col\<close> here. \<open>redirect_url\<close> and \<open>duplicate_of\<close> have no default and may be NULL; the
  other columns are always written by the program's statements with non-NULL values.
\<close>

record Row =
  id_col :: int
  title :: string
  url :: string
  folder :: string
  is_dead :: bool
  is_redirect :: bool
  redirect_url :: "string option"
  is_duplicate :: bool
  duplicate_of :: "int option"

text \<open>
  The database: the rows of \<open>bookmarks\<close> in rowid order, and the counter SQLite keeps for
  an \<open>AUTOINCREMENT\<close> key (the largest id ever handed out).
\<close>

record DB =
  bookmarks_table :: "Row list"
  sqlite_sequence :: int

text \<open>
  The failures the environment can inject into one call of an operation: every call into
  database/sql and the file system that returns an error. A counted fault (\<open>query_err\<close>,
  \<open>next_err\<close>, \<open>scan_err\<close>, \<open>exec_err\<close>, \<open>write_err\<close>) is indexed by how many calls of that
  kind the operation has made before. \<open>next_err\<close> is a read error inside \<open>rows.Next()\<close>:
  the call returns false as it does after the last row, and the error stays in
  \<open>rows.Err()\<close>, which the program never reads.
\<close>

record faults =
  begin_err :: "error option"
  query_err :: "nat \<Rightarrow> error option"
  next_err :: "nat \<Rightarrow> error option"
  scan_err :: "nat \<Rightarrow> error option"
  prepare_err :: "error option"
  exec_err :: "nat \<Rightarrow> error option"
  commit_err :: "error option"
  mkdir_err :: "error option"
  create_err :: "error option"
  write_err :: "nat \<Rightarrow> error option"

definition no_faults :: faults where
  "no_faults =
     \<lparr>begin_err = None, query_err = (\<lambda>_. None), next_err = (\<lambda>_. None),
      scan_err = (\<lambda>_. None), prepare_err = None, exec_err = (\<lambda>_. None), commit_err = None,
      mkdir_err = None, create_err = None, write_err = (\<lambda>_. None)\<rparr>"

text \<open>\<open>fmt.Errorf("<prefix>: %v", err)\<close>.\<close>

fun Errorf :: "string \<Rightarrow> error \<Rightarrow> error" where
  "Errorf prefix (Error msg) = Error (prefix @ '': '' @ msg)"

definition ErrNoRows :: error where
  "ErrNoRows = Error ''sql: no rows in result set''"

text \<open>
  \<open>INSERT INTO bookmarks (title, url, folder, is_duplicate, duplicate_of)\<close>: the new id is
  one more than the largest id the table holds or has ever handed out; \<open>is_dead\<close> and
  \<open>is_redirect\<close> take their default \<open>FALSE\<close>, \<open>redirect_url\<close> is NULL.
\<close>

definition last_id :: "DB \<Rightarrow> int" where
  "last_id db = fold max (map id_col (bookmarks_table db)) (sqlite_sequence db)"

definition insert_row :: "DB \<Rightarrow> string \<Rightarrow> string \<Rightarrow> string \<Rightarrow> bool \<Rightarrow> int option \<Rightarrow> DB" where
  "insert_row db t u f dup dup_of =
     \<lparr>bookmarks_table = bookmarks_table db @
        [\<lparr>id_col = last_id db + 1, title = t, url = u, folder = f, is_dead = False,
          is_redirect = False, redirect_url = None, is_duplicate = dup,
          duplicate_of = dup_of\<rparr>],
      sqlite_sequence = last_id db + 1\<rparr>"

text \<open>
  \<open>tx.QueryRow("SELECT id FROM bookmarks WHERE url = ?", b.URL).Scan(&existingID)\<close>, the
  \<open>k\<close>-th query of the call: the id of the first row with exactly that url, \<open>ErrNoRows\<close>
  when there is none, the driver's error when the query fails.
\<close>

definition QueryRow_id :: "faults \<Rightarrow> nat \<Rightarrow> DB \<Rightarrow> string \<Rightarrow> error + int" where
  "QueryRow_id fl k tx u =
     (case query_err fl k of
        Some e \<Rightarrow> Inl e
      | None \<Rightarrow>
         (case List.find (\<lambda>r. url r = u) (bookmarks_table tx) of
            None \<Rightarrow> Inl ErrNoRows
          | Some r \<Rightarrow> Inr (id_col r)))"

section \<open>SaveBookmarks\<close>

text \<open>
  The first loop: \<open>urlMap[b.URL] = existingID\<close> only \<open>if err == nil\<close>; any error of the
  lookup, \<open>ErrNoRows\<close> or another, leaves the map as it is and the loop goes on.
\<close>

fun lookup_loop ::
  "faults \<Rightarrow> DB \<Rightarrow> nat \<Rightarrow> Bookmark list \<Rightarrow> (string \<rightharpoonup> int) \<Rightarrow> (string \<rightharpoonup> int)" where
  "lookup_loop fl tx k [] urlMap = urlMap"
| "lookup_loop fl tx k (b # bs) urlMap =
     lookup_loop fl tx (Suc k) bs
       (case QueryRow_id fl k tx (URL b) of
          Inr existingID \<Rightarrow> urlMap(URL b \<mapsto> existingID)
        | Inl e \<Rightarrow> urlMap)"

text \<open>The second loop: one \<open>stmt.Exec\<close> per record; the first error ends it.\<close>

fun insert_loop ::
  "faults \<Rightarrow> (string \<rightharpoonup> int) \<Rightarrow> nat \<Rightarrow> Bookmark list \<Rightarrow> DB \<Rightarrow> error + DB" where
  "insert_loop fl urlMap k [] tx = Inr tx"
| "insert_loop fl urlMap k (b # bs) tx =
     (case exec_err fl k of
        Some e \<Rightarrow> Inl e
      | None \<Rightarrow>
         insert_loop fl urlMap (Suc k) bs
           (case urlMap (URL b) of
              Some duplicateID \<Rightarrow>
                insert_row tx (Title b) (URL b) (Folder b) True (Some duplicateID)
            | None \<Rightarrow> insert_row tx (Title b) (URL b) (Folder b) False None))"

text \<open>
  \<open>SaveBookmarks\<close> returns its error and leaves the database in the state returned here.
  The transaction works on a copy \<open>tx\<close> of the database; \<open>tx.Commit()\<close> installs it,
  \<open>tx.Rollback()\<close> (and a failed commit) leaves the database as it was.
\<close>

definition SaveBookmarks :: "faults \<Rightarrow> DB \<Rightarrow> Bookmark list \<Rightarrow> error option \<times> DB" where
  "SaveBookmarks fl db bs =
     (case begin_err fl of
        Some e \<Rightarrow> (Some e, db)
      | None \<Rightarrow>
         (let urlMap = lookup_loop fl db 0 bs Map.empty in
          case prepare_err fl of
            Some e \<Rightarrow> (Some e, db)
          | None \<Rightarrow>
             (case insert_loop fl urlMap 0 bs db of
                Inl e \<Rightarrow> (Some e, db)
              | Inr tx \<Rightarrow>
                 (case commit_err fl of
                    Some e \<Rightarrow> (Some e, db)
                  | None \<Rightarrow> (None, tx)))))"



section \<open>ValidateBookmark\<close>

text \<open>
  What the network does for one \<open>client.Get\<close>, as net/http reports it to the program:
  the URL (\<open>URL.String()\<close>) of the first request, the URLs of the requests the client
  was redirected to, in order, and how the last request ended: a transport error
  (timeout, refused connection, DNS or TLS failure, invalid URL) or a response with its
  status code.
\<close>

record http_exchange =
  first_request :: string
  hops :: "string list"
  final :: "error + int"

text \<open>\<open>http.Response\<close>: \<open>StatusCode\<close> and \<open>Request.URL.String()\<close>.\<close>

record Response =
  StatusCode :: int
  Request_URL :: string

text \<open>
  The closure \<open>CheckRedirect\<close>: \<open>req\<close> is the upcoming request, \<open>via\<close> the requests
  made already, oldest first. It writes to the bookmark and returns \<open>nil\<close>.
\<close>

definition CheckRedirect :: "Bookmark \<Rightarrow> string \<Rightarrow> string list \<Rightarrow> Bookmark \<times> error option" where
  "CheckRedirect bookmark req via =
     (if length via \<ge> 1 then bookmark\<lparr>Redirect := True, RedirectURL := req\<rparr> else bookmark,
      None)"

text \<open>
  net/http's redirect loop: before each redirected request the client calls
  \<open>CheckRedirect\<close> with the requests made so far, and stops when it returns an error.
\<close>

fun follow_redirects :: "string list \<Rightarrow> string list \<Rightarrow> Bookmark \<Rightarrow> Bookmark \<times> error option" where
  "follow_redirects via [] bookmark = (bookmark, None)"
| "follow_redirects via (req # reqs) bookmark =
     (case CheckRedirect bookmark req via of
        (bookmark', Some e) \<Rightarrow> (bookmark', Some e)
      | (bookmark', None) \<Rightarrow> follow_redirects (via @ [req]) reqs bookmark')"

text \<open>
  \<open>client.Get(bookmark.URL)\<close>: the response's \<open>Request\<close> is the last request made.
\<close>

definition client_Get :: "http_exchange \<Rightarrow> Bookmark \<Rightarrow> Bookmark \<times> (error + Response)" where
  "client_Get ex bookmark =
     (case follow_redirects [first_request ex] (hops ex) bookmark of
        (bookmark', Some e) \<Rightarrow> (bookmark', Inl e)
      | (bookmark', None) \<Rightarrow>
         (case final ex of
            Inl e \<Rightarrow> (bookmark', Inl e)
          | Inr code \<Rightarrow>
             (bookmark',
              Inr \<lparr>StatusCode = code, Request_URL = last (first_request ex # hops ex)\<rparr>)))"

text \<open>
  \<open>ValidateBookmark\<close> mutates the bookmark it is given and returns an error value: the
  pair of the bookmark afterwards and that value.
\<close>

definition ValidateBookmark :: "http_exchange \<Rightarrow> Bookmark \<Rightarrow> Bookmark \<times> error option" where
  "ValidateBookmark ex bookmark =
     (case client_Get ex bookmark of
        (b1, Inl e) \<Rightarrow> (b1\<lparr>Dead := True\<rparr>, None)
      | (b1, Inr resp) \<Rightarrow>
         (let b2 = (if StatusCode resp \<ge> 400 then b1\<lparr>Dead := True\<rparr> else b1);
              b3 = (if Redirect b2 \<and> RedirectURL b2 = ''''
                    then b2\<lparr>RedirectURL := Request_URL resp\<rparr> else b2)
          in (b3, None)))"

text \<open>
  A probe fails when the exchange ends in a transport error or in a response with a
  status of 400 or more.
\<close>

definition probe_failed :: "http_exchange \<Rightarrow> bool" where
  "probe_failed ex = (case final ex of Inl e \<Rightarrow> True | Inr code \<Rightarrow> 400 \<le> code)"

section \<open>ValidateAndUpdateBookmarks\<close>

text \<open>\<open>type validationResult struct\<close>; its field \<open>id\<close> is \<open>id_res\<close> here.\<close>

record validationResult =
  id_res :: int
  dead :: bool
  redirect :: bool
  redirectURL :: string
  err :: "error option"

text \<open>\<open>validationResult{err: err}\<close>: the other fields have their zero values.\<close>

definition scan_failure :: "error \<Rightarrow> validationResult" where
  "scan_failure e =
     \<lparr>id_res = 0, dead = False, redirect = False, redirectURL = '''', err = Some e\<rparr>"

text \<open>
  The body of a probe task (the inner goroutine): a fresh bookmark with the row's id and
  url, one call of \<open>ValidateBookmark\<close>, and the result it sends.
\<close>

definition probe_task :: "http_exchange \<Rightarrow> int \<Rightarrow> string \<Rightarrow> validationResult" where
  "probe_task ex bookmarkID bookmarkURL =
     (case ValidateBookmark ex (Bookmark_zero\<lparr>ID := bookmarkID, URL := bookmarkURL\<rparr>) of
        (bookmark, e) \<Rightarrow>
          \<lparr>id_res = bookmarkID, dead = Dead bookmark, redirect = Redirect bookmark,
           redirectURL = RedirectURL bookmark, err = e\<rparr>)"

text \<open>The counters \<open>stats.total\<close>, \<open>stats.dead\<close>, \<open>stats.redirects\<close>, \<open>stats.valid\<close>.\<close>

record stats =
  stats_total :: nat
  stats_dead :: nat
  stats_redirects :: nat
  stats_valid :: nat

definition stats_zero :: stats where
  "stats_zero = \<lparr>stats_total = 0, stats_dead = 0, stats_redirects = 0, stats_valid = 0\<rparr>"

definition count_result :: "validationResult \<Rightarrow> stats \<Rightarrow> stats" where
  "count_result result st =
     (let st1 = st\<lparr>stats_total := stats_total st + 1\<rparr>
      in if dead result then st1\<lparr>stats_dead := stats_dead st1 + 1\<rparr>
         else if redirect result then st1\<lparr>stats_redirects := stats_redirects st1 + 1\<rparr>
         else st1\<lparr>stats_valid := stats_valid st1 + 1\<rparr>)"

text \<open>
  \<open>UPDATE bookmarks SET is_dead = ?, is_redirect = ?, redirect_url = ? WHERE id = ?\<close>
  with the arguments \<open>result.dead, result.redirect, result.redirectURL, result.id\<close>.
\<close>

definition exec_update :: "DB \<Rightarrow> validationResult \<Rightarrow> DB" where
  "exec_update tx result =
     tx\<lparr>bookmarks_table :=
          map (\<lambda>r. if id_col r = id_res result
                   then r\<lparr>is_dead := dead result, is_redirect := redirect result,
                          redirect_url := Some (redirectURL result)\<rparr>
                   else r)
            (bookmarks_table tx)\<rparr>"

text \<open>
  \<open>for result := range results\<close>: the argument is the sequence of values the channel
  delivers, in the order received, until it is closed. The \<open>k\<close>-th \<open>stmt.Exec\<close> may
  fail. Both \<open>return\<close> statements of the loop end it with an error.
\<close>

fun update_loop ::
  "faults \<Rightarrow> nat \<Rightarrow> validationResult list \<Rightarrow> DB \<times> stats \<Rightarrow> error + DB \<times> stats" where
  "update_loop fl k [] (tx, st) = Inr (tx, st)"
| "update_loop fl k (result # rest) (tx, st) =
     (case err result of
        Some e \<Rightarrow> Inl (Errorf ''error validating bookmark'' e)
      | None \<Rightarrow>
         (case exec_err fl k of
            Some e \<Rightarrow> Inl (Errorf ''error updating bookmark status'' e)
          | None \<Rightarrow> update_loop fl (Suc k) rest (exec_update tx result, count_result result st)))"

text \<open>\<open>%d\<close> of a counter that is never negative.\<close>

fun Sprintf_d :: "nat \<Rightarrow> string" where
  "Sprintf_d n =
     (if n < 10 then [char_of (48 + n)]
      else Sprintf_d (n div 10) @ [char_of (48 + n mod 10)])"

declare Sprintf_d.simps [simp del]

definition newline :: string where
  "newline = [CHR 0x0A]"

definition report :: "stats \<Rightarrow> string" where
  "report st =
     ''Bookmark Validation Report'' @ newline @
     ''========================'' @ newline @ newline @
     ''Total URLs processed: '' @ Sprintf_d (stats_total st) @ newline @
     ''Valid URLs: '' @ Sprintf_d (stats_valid st) @ newline @
     ''Dead links: '' @ Sprintf_d (stats_dead st) @ newline @
     ''Redirects: '' @ Sprintf_d (stats_redirects st) @ newline"

definition reportPath :: string where
  "reportPath = ''output/validation_report.txt''"

text \<open>What an operation can change: the database and the files (path to content).\<close>

record world =
  store :: DB
  files :: "string \<rightharpoonup> string"

text \<open>
  \<open>ValidateAndUpdateBookmarks\<close>, given the values \<open>results\<close> that its loop receives
  from the channel. \<open>defer tx.Rollback()\<close> undoes the updates on every \<open>return\<close> before
  the commit; after a successful commit it does nothing.
\<close>

definition ValidateAndUpdateBookmarks ::
  "faults \<Rightarrow> validationResult list \<Rightarrow> world \<Rightarrow> error option \<times> world" where
  "ValidateAndUpdateBookmarks fl results w =
     (case begin_err fl of
        Some e \<Rightarrow> (Some (Errorf ''error starting transaction'' e), w)
      | None \<Rightarrow>
     (case query_err fl 0 of
        Some e \<Rightarrow> (Some (Errorf ''error querying bookmarks'' e), w)
      | None \<Rightarrow>
     (case prepare_err fl of
        Some e \<Rightarrow> (Some (Errorf ''error preparing update statement'' e), w)
      | None \<Rightarrow>
     (case update_loop fl 0 results (store w, stats_zero) of
        Inl e \<Rightarrow> (Some e, w)
      | Inr (tx, st) \<Rightarrow>
     (case commit_err fl of
        Some e \<Rightarrow> (Some (Errorf ''error committing transaction'' e), w)
      | None \<Rightarrow>
     (case mkdir_err fl of
        Some e \<Rightarrow> (Some (Errorf ''error creating output directory'' e), w\<lparr>store := tx\<rparr>)
      | None \<Rightarrow>
     (case write_err fl 0 of
        Some e \<Rightarrow> (Some (Errorf ''error writing report'' e), w\<lparr>store := tx\<rparr>)
      | None \<Rightarrow>
         (None, w\<lparr>store := tx, files := (files w)(reportPath \<mapsto> report st)\<rparr>))))))))"

text \<open>
  The columns a validation run must not touch, and the rows no result refers to.
\<close>

definition frame :: "Row \<Rightarrow> int \<times> string \<times> string \<times> string \<times> bool \<times> int option" where
  "frame r = (id_col r, title r, url r, folder r, is_duplicate r, duplicate_of r)"

subsection \<open>The producer, the probe tasks and the channel\<close>

text \<open>
  The goroutines of \<open>ValidateAndUpdateBookmarks\<close> that feed the channel \<open>results\<close>:
  the rows \<open>rows.Next()\<close> has not returned yet, the number of rows returned, the tokens
  in \<open>workQueue\<close>, the probe tasks that were launched and have not sent yet (each with
  the result it will send), whether \<open>close(results)\<close> has run, the values sent on the
  channel so far, and whether a task has panicked by sending on the closed channel.
\<close>

record pool =
  rows_left :: "(int \<times> string) list"
  rows_read :: nat
  workQueue :: nat
  in_flight :: "validationResult list"
  closed :: bool
  sent :: "validationResult list"
  panicked :: bool

text \<open>
  The steps a scheduler can choose. \<open>NextRow\<close>: \<open>rows.Next()\<close> returns true and the
  producer runs its loop body for the row: on a scan error it sends the error result and
  continues; otherwise it takes a token (it blocks while there is none) and launches the
  task. \<open>TaskSends k\<close>: the \<open>k\<close>-th task in flight sends its result and then returns its
  token; on the closed channel the send panics. \<open>LoopEnds\<close>: \<open>rows.Next()\<close> returns
  false, after the last row or on a read error (\<open>next_err\<close>), and the deferred
  \<open>close(results)\<close> runs: nothing waits for the tasks in flight.
\<close>

datatype event = NextRow | TaskSends nat | LoopEnds

fun step :: "faults \<Rightarrow> (int \<Rightarrow> http_exchange) \<Rightarrow> event \<Rightarrow> pool \<Rightarrow> pool option" where
  "step fl net NextRow p =
     (case rows_left p of
        [] \<Rightarrow> None
      | (i, u) # rest \<Rightarrow>
         if closed p \<or> next_err fl (rows_read p) \<noteq> None then None
         else
         (case scan_err fl (rows_read p) of
            Some e \<Rightarrow>
              Some (p\<lparr>rows_left := rest, rows_read := Suc (rows_read p),
                      sent := sent p @ [scan_failure e]\<rparr>)
          | None \<Rightarrow>
              if workQueue p = 0 then None
              else Some (p\<lparr>rows_left := rest, rows_read := Suc (rows_read p),
                           workQueue := workQueue p - 1,
                           in_flight := in_flight p @ [probe_task (net i) i u]\<rparr>)))"
| "step fl net (TaskSends k) p =
     (if k < length (in_flight p) then
        (if closed p then Some (p\<lparr>panicked := True\<rparr>)
         else Some (p\<lparr>in_flight := take k (in_flight p) @ drop (Suc k) (in_flight p),
                      sent := sent p @ [in_flight p ! k],
                      workQueue := Suc (workQueue p)\<rparr>))
      else None)"
| "step fl net LoopEnds p =
     (if (rows_left p = [] \<or> next_err fl (rows_read p) \<noteq> None) \<and> \<not> closed p
      then Some (p\<lparr>closed := True\<rparr>) else None)"

fun run_schedule :: "faults \<Rightarrow> (int \<Rightarrow> http_exchange) \<Rightarrow> event list \<Rightarrow> pool \<Rightarrow> pool option" where
  "run_schedule fl net [] p = Some p"
| "run_schedule fl net (ev # evs) p =
     (case step fl net ev p of
        None \<Rightarrow> None
      | Some p' \<Rightarrow> run_schedule fl net evs p')"

text \<open>
  The start: \<open>tx.Query("SELECT id, url FROM bookmarks")\<close>, \<open>workerCount := 10\<close> tokens in
  \<open>workQueue\<close>.
\<close>

definition pool_init :: "DB \<Rightarrow> pool" where
  "pool_init db =
     \<lparr>rows_left = map (\<lambda>r. (id_col r, url r)) (bookmarks_table db), rows_read = 0,
      workQueue = 10, in_flight = [], closed = False, sent = [], panicked = False\<rparr>"

text \<open>
  A validation run under a schedule that ends with the channel closed: the loop of
  \<open>ValidateAndUpdateBookmarks\<close> receives what was sent before the close. \<open>None\<close> when
  the schedule cannot happen or leaves the channel open.
\<close>

definition validation_run ::
  "faults \<Rightarrow> (int \<Rightarrow> http_exchange) \<Rightarrow> event list \<Rightarrow> world \<Rightarrow> (error option \<times> world) option" where
  "validation_run fl net evs w =
     (case run_schedule fl net evs (pool_init (store w)) of
        None \<Rightarrow> None
      | Some p \<Rightarrow>
          if closed p \<and> \<not> panicked p
          then Some (ValidateAndUpdateBookmarks fl (sent p) w) else None)"

section \<open>ExportValidBookmarks\<close>

















section \<open>Concrete inputs\<close>

definition row_old :: Row where
  "row_old =
     \<lparr>id_col = 1, title = ''Old'', url = ''http://b.example/'', folder = ''News'',
      is_dead = False, is_redirect = False, redirect_url = None, is_duplicate = False,
      duplicate_of = None\<rparr>"

definition db_one :: DB where
  "db_one = \<lparr>bookmarks_table = [row_old], sqlite_sequence = 1\<rparr>"

definition world_one :: world where
  "world_one = \<lparr>store = db_one, files = Map.empty\<rparr>"

definition parsed :: "string \<Rightarrow> string \<Rightarrow> string \<Rightarrow> Bookmark" where
  "parsed t u f = Bookmark_zero\<lparr>Title := t, URL := u, Folder := f\<rparr>"

text \<open>Two records with the same new url, and one with the url of \<open>row_old\<close>.\<close>

definition batch_same_url :: "Bookmark list" where
  "batch_same_url =
     [parsed ''T1'' ''http://a.example/'' ''News'',
      parsed ''T2'' ''http://a.example/'' ''Tech'',
      parsed ''T3'' ''http://b.example/'' ''Tech'']"


text \<open>The first lookup query of the call fails.\<close>

definition lookup_fails :: faults where
  "lookup_fails =
     no_faults\<lparr>query_err := (\<lambda>k. if k = 0 then Some (Error ''database is locked'') else None)\<rparr>"

definition ex_ok :: http_exchange where
  "ex_ok = \<lparr>first_request = ''http://b.example/'', hops = [], final = Inr 200\<rparr>"

definition ex_redirect :: http_exchange where
  "ex_redirect =
     \<lparr>first_request = ''http://b.example/'',
      hops = [''https://b.example/'', ''https://www.b.example/''], final = Inr 200\<rparr>"

definition ex_timeout :: http_exchange where
  "ex_timeout =
     \<lparr>first_request = ''http://b.example/'', hops = [],
      final = Inl (Error ''context deadline exceeded'')\<rparr>"

text \<open>
  A table with a valid row in folder \<open>News\<close>, a dead row in the same folder, a valid row
  without folder and a redirecting row.
\<close>

definition db_mixed :: DB where
  "db_mixed =
     \<lparr>bookmarks_table =
        [row_old,
         \<lparr>id_col = 2, title = ''Gone'', url = ''http://gone.example/'', folder = ''News'',
          is_dead = True, is_redirect = False, redirect_url = Some '''', is_duplicate = False,
          duplicate_of = None\<rparr>,
         \<lparr>id_col = 3, title = ''Loose'', url = ''http://c.example/'', folder = '''',
          is_dead = False, is_redirect = False, redirect_url = Some '''',
          is_duplicate = False, duplicate_of = None\<rparr>,
         \<lparr>id_col = 4, title = ''Moved'', url = ''http://d.example/'', folder = ''Tech'',
          is_dead = False, is_redirect = True, redirect_url = Some ''https://d.example/'',
          is_duplicate = False, duplicate_of = None\<rparr>],
      sqlite_sequence = 4\<rparr>"

text \<open>The second \<open>rows.Scan\<close> of the call fails.\<close>

definition scan_fails :: faults where
  "scan_fails =
     no_faults\<lparr>scan_err := (\<lambda>k. if k = 1 then Some (Error ''sql: Scan error'') else None)\<rparr>"

definition world_mixed :: world where
  "world_mixed = \<lparr>store = db_mixed, files = Map.empty\<rparr>"


chapter \<open>Properties\<close>

section \<open>Parse: folder labels and emitted records\<close>

lemmas doc_defs = text_node_def element_def link_def

lemmas trim_defs = TrimSpace_def strip_left.simps leading_code_def White_Space_def









text \<open>
  The flat rule at work: the third link follows the closed nested folder \<open>Inner\<close> and is a
  sibling of the entries of \<open>Outer\<close>; it is labelled \<open>Inner\<close>.
\<close>

lemma Parse_nested_folder_example:
  "Parse (Inr doc_nested) =
     Inr [Bookmark_zero\<lparr>Title := ''first'', URL := ''u1'', Folder := ''Outer''\<rparr>,
          Bookmark_zero\<lparr>Title := ''second'', URL := ''u2'', Folder := ''Inner''\<rparr>,
          Bookmark_zero\<lparr>Title := ''third'', URL := ''u3'', Folder := ''Inner''\<rparr>]"
  by (simp add: Parse_def doc_nested_def doc_defs visit_def trim_defs Bookmark_zero_def)









text \<open>
  Claim C7 fails on the code: the test \<open>title != ""\<close> is made before
  \<open>strings.TrimSpace\<close>, so a link whose text is white space only passes the test and is
  emitted with the empty title.
\<close>

theorem Parse_emits_blank_title:
  "Parse (Inr doc_blank_title) =
     Inr [Bookmark_zero\<lparr>Title := '''', URL := ''http://example.com''\<rparr>]"
  by (simp add: Parse_def doc_blank_title_def doc_defs visit_def trim_defs Bookmark_zero_def)

section \<open>SaveBookmarks: duplicates and store failures\<close>









lemmas input_defs =
  row_old_def db_one_def world_one_def parsed_def batch_same_url_def lookup_fails_def
  no_faults_def Bookmark_zero_def





text \<open>
  Claim C8 fails on the code: the lookup loop drops every error of the query
  (\<open>if err == nil\<close> has no \<open>else\<close>). With the first lookup failing, the import of a
  record whose url is already stored commits, and stores the record as an original.
\<close>

theorem SaveBookmarks_ignores_lookup_failure:
  "SaveBookmarks lookup_fails db_one [parsed ''T3'' ''http://b.example/'' ''Tech''] =
     (None,
      \<lparr>bookmarks_table =
         [row_old,
          \<lparr>id_col = 2, title = ''T3'', url = ''http://b.example/'', folder = ''Tech'',
           is_dead = False, is_redirect = False, redirect_url = None, is_duplicate = False,
           duplicate_of = None\<rparr>],
       sqlite_sequence = 2\<rparr>)"
  by (simp add: SaveBookmarks_def QueryRow_id_def insert_row_def last_id_def input_defs)

section \<open>ValidateBookmark: probes never fail, redirects\<close>

lemma CheckRedirect_eq:
  "CheckRedirect b req (v # via) = (b\<lparr>Redirect := True, RedirectURL := req\<rparr>, None)"
  by (simp add: CheckRedirect_def)

lemma follow_redirects_eq:
  "via \<noteq> [] \<Longrightarrow>
   follow_redirects via reqs b =
     (if reqs = [] then b else b\<lparr>Redirect := True, RedirectURL := last reqs\<rparr>, None)"
proof (induction reqs arbitrary: via b)
  case Nil
  show ?case by simp
next
  case (Cons req reqs)
  from Cons.prems obtain v vs where via: "via = v # vs" by (cases via) auto
  show ?case
    using Cons.IH[of "via @ [req]" "b\<lparr>Redirect := True, RedirectURL := req\<rparr>"]
    by (simp add: via CheckRedirect_eq)
qed

lemma client_Get_eq:
  "client_Get ex b =
     (if hops ex = [] then b else b\<lparr>Redirect := True, RedirectURL := last (hops ex)\<rparr>,
      case final ex of
        Inl e \<Rightarrow> Inl e
      | Inr code \<Rightarrow> Inr \<lparr>StatusCode = code, Request_URL = last (first_request ex # hops ex)\<rparr>)"
  by (simp add: client_Get_def follow_redirects_eq split: sum.splits)

lemma ValidateBookmark_err: "snd (ValidateBookmark ex b) = None"
  by (simp add: ValidateBookmark_def client_Get_eq Let_def split: sum.splits)

lemma ValidateBookmark_Dead:
  "Dead (fst (ValidateBookmark ex b)) = (Dead b \<or> probe_failed ex)"
  by (auto simp: ValidateBookmark_def client_Get_eq Let_def probe_failed_def split: sum.splits)

lemma ValidateBookmark_Redirect:
  "Redirect (fst (ValidateBookmark ex b)) = (Redirect b \<or> hops ex \<noteq> [])"
  by (auto simp: ValidateBookmark_def client_Get_eq Let_def split: sum.splits)

lemma ValidateBookmark_RedirectURL:
  "hops ex \<noteq> [] \<Longrightarrow> RedirectURL (fst (ValidateBookmark ex b)) = last (hops ex)"
  by (auto simp: ValidateBookmark_def client_Get_eq Let_def split: sum.splits)

lemma probe_task_eq:
  "probe_task ex i u =
     \<lparr>id_res = i, dead = probe_failed ex, redirect = (hops ex \<noteq> []),
      redirectURL = (if hops ex = [] then '''' else last (hops ex)), err = None\<rparr>"
proof -
  obtain b e where v: "ValidateBookmark ex (Bookmark_zero\<lparr>ID := i, URL := u\<rparr>) = (b, e)"
    by (cases "ValidateBookmark ex (Bookmark_zero\<lparr>ID := i, URL := u\<rparr>)") auto
  have e: "e = None" using ValidateBookmark_err[of ex "Bookmark_zero\<lparr>ID := i, URL := u\<rparr>"] v by simp
  have d: "Dead b = probe_failed ex"
    using ValidateBookmark_Dead[of ex "Bookmark_zero\<lparr>ID := i, URL := u\<rparr>"] v
    by (simp add: Bookmark_zero_def)
  have r: "Redirect b = (hops ex \<noteq> [])"
    using ValidateBookmark_Redirect[of ex "Bookmark_zero\<lparr>ID := i, URL := u\<rparr>"] v
    by (simp add: Bookmark_zero_def)
  have ru: "RedirectURL b = (if hops ex = [] then '''' else last (hops ex))"
  proof (cases "hops ex = []")
    case True
    then show ?thesis using v
      by (auto simp: ValidateBookmark_def client_Get_eq Let_def Bookmark_zero_def split: sum.splits)
  next
    case False
    then show ?thesis
      using ValidateBookmark_RedirectURL[of ex "Bookmark_zero\<lparr>ID := i, URL := u\<rparr>"] v by simp
  qed
  show ?thesis by (simp add: probe_task_def v e d r ru)
qed

section \<open>ValidateAndUpdateBookmarks: abort, frame, early close\<close>

lemma update_loop_err:
  "\<exists>r\<in>set results. err r \<noteq> None \<Longrightarrow> isl (update_loop fl k results (tx, st))"
proof (induction results arbitrary: k tx st)
  case Nil
  then show ?case by simp
next
  case (Cons r rs)
  show ?case
  proof (cases "err r")
    case (Some e)
    then show ?thesis by simp
  next
    case None
    with Cons.prems have "\<exists>r\<in>set rs. err r \<noteq> None" by auto
    from Cons.IH[OF this] show ?thesis
      by (simp add: None split: option.splits)
  qed
qed

text \<open>
  Claim C1. If any result the loop receives carries an error (only a row scan error
  does: a probe task never sends one), \<open>ValidateAndUpdateBookmarks\<close> returns an error
  and leaves the database and the files exactly as they were before the run: every
  update applied before the failing result is rolled back and no report is written.
\<close>

theorem scan_error_aborts_run:
  assumes "\<exists>r\<in>set results. err r \<noteq> None"
  shows "fst (ValidateAndUpdateBookmarks fl results w) \<noteq> None \<and>
         snd (ValidateAndUpdateBookmarks fl results w) = w"
proof -
  have "isl (update_loop fl 0 results (store w, stats_zero))"
    using assms by (rule update_loop_err)
  then obtain e where "update_loop fl 0 results (store w, stats_zero) = Inl e"
    by (cases "update_loop fl 0 results (store w, stats_zero)") auto
  then show ?thesis
    by (simp add: ValidateAndUpdateBookmarks_def split: option.splits)
qed

lemma exec_update_frame:
  "map frame (bookmarks_table (exec_update tx r)) = map frame (bookmarks_table tx)"
  by (simp add: exec_update_def frame_def)

lemma exec_update_seq: "sqlite_sequence (exec_update tx r) = sqlite_sequence tx"
  by (simp add: exec_update_def)

lemma filter_update_others:
  "filter (\<lambda>x. id_col x \<noteq> i \<and> P x)
     (map (\<lambda>x. if id_col x = i
               then x\<lparr>is_dead := d, is_redirect := rd, redirect_url := ru\<rparr> else x) xs) =
   filter (\<lambda>x. id_col x \<noteq> i \<and> P x) xs"
  by (induction xs) auto

lemma exec_update_others:
  "filter (\<lambda>x. id_col x \<noteq> id_res r \<and> P x) (bookmarks_table (exec_update tx r)) =
   filter (\<lambda>x. id_col x \<noteq> id_res r \<and> P x) (bookmarks_table tx)"
  by (simp add: exec_update_def filter_update_others)

lemma update_loop_frame:
  "update_loop fl k results (tx, st) = Inr (tx', st') \<Longrightarrow>
   map frame (bookmarks_table tx') = map frame (bookmarks_table tx) \<and>
   sqlite_sequence tx' = sqlite_sequence tx \<and>
   filter (\<lambda>x. id_col x \<notin> id_res ` set results) (bookmarks_table tx') =
   filter (\<lambda>x. id_col x \<notin> id_res ` set results) (bookmarks_table tx)"
proof (induction results arbitrary: k tx st)
  case Nil
  then show ?case by simp
next
  case (Cons r rs)
  from Cons.prems have rest:
    "update_loop fl (Suc k) rs (exec_update tx r, count_result r st) = Inr (tx', st')"
    by (auto split: option.splits)
  note IH = Cons.IH[OF rest]
  let ?P = "\<lambda>x. id_col x \<notin> id_res ` set rs"
  have "filter (\<lambda>x. id_col x \<noteq> id_res r \<and> ?P x) (bookmarks_table tx') =
        filter (\<lambda>x. id_col x \<noteq> id_res r) (filter ?P (bookmarks_table tx'))"
    by (simp add: conj_commute)
  also have "\<dots> = filter (\<lambda>x. id_col x \<noteq> id_res r) (filter ?P (bookmarks_table (exec_update tx r)))"
    using IH by simp
  also have "\<dots> = filter (\<lambda>x. id_col x \<noteq> id_res r \<and> ?P x) (bookmarks_table (exec_update tx r))"
    by (simp add: conj_commute)
  also have "\<dots> = filter (\<lambda>x. id_col x \<noteq> id_res r \<and> ?P x) (bookmarks_table tx)"
    by (rule exec_update_others)
  finally have "filter (\<lambda>x. id_col x \<notin> id_res ` set (r # rs)) (bookmarks_table tx') =
                filter (\<lambda>x. id_col x \<notin> id_res ` set (r # rs)) (bookmarks_table tx)"
    by simp
  with IH show ?case
    by (simp only: exec_update_frame exec_update_seq)
qed

text \<open>
  Claim C10. Whatever the results, the faults and the outcome, a validation run leaves
  the columns id, title, url, folder, is_duplicate and duplicate_of of every row as they
  were and keeps the rows and their order (\<open>frame\<close>); a row whose id no result carries
  is unchanged in every column; and a second run (a re-validation) on the outcome of the
  first leaves the same columns unchanged again.
\<close>

theorem validation_run_frame:
  "map frame (bookmarks_table (store (snd (ValidateAndUpdateBookmarks fl results w)))) =
     map frame (bookmarks_table (store w)) \<and>
   filter (\<lambda>r. id_col r \<notin> id_res ` set results)
     (bookmarks_table (store (snd (ValidateAndUpdateBookmarks fl results w)))) =
     filter (\<lambda>r. id_col r \<notin> id_res ` set results) (bookmarks_table (store w)) \<and>
   map frame (bookmarks_table (store (snd (ValidateAndUpdateBookmarks fl' results'
       (snd (ValidateAndUpdateBookmarks fl results w)))))) =
     map frame (bookmarks_table (store w))"
proof -
  have one: "map frame (bookmarks_table (store (snd (ValidateAndUpdateBookmarks f rs v)))) =
               map frame (bookmarks_table (store v)) \<and>
             filter (\<lambda>r. id_col r \<notin> id_res ` set rs)
               (bookmarks_table (store (snd (ValidateAndUpdateBookmarks f rs v)))) =
               filter (\<lambda>r. id_col r \<notin> id_res ` set rs) (bookmarks_table (store v))"
    for f rs v
  proof (cases "update_loop f 0 rs (store v, stats_zero)")
    case (Inl e)
    then show ?thesis
      by (simp add: ValidateAndUpdateBookmarks_def split: option.splits)
  next
    case (Inr res)
    obtain tx st where res: "res = (tx, st)" by (cases res)
    from update_loop_frame[OF Inr[unfolded res]] show ?thesis
      by (simp add: ValidateAndUpdateBookmarks_def Inr res split: option.splits)
  qed
  show ?thesis
    using one[of fl results w] one[of fl' results' "snd (ValidateAndUpdateBookmarks fl results w)"]
    by simp
qed

lemma update_loop_probes:
  "\<forall>r\<in>set results. err r = None \<Longrightarrow>
   \<not> isl (update_loop no_faults k results (tx, st))"
proof (induction results arbitrary: k tx st)
  case Nil
  show ?case by simp
next
  case (Cons r rs)
  then show ?case by (simp add: no_faults_def)
qed

text \<open>
  Claim C4. \<open>ValidateBookmark\<close> always returns \<open>nil\<close>. It calls \<open>client.Get\<close> once; a
  transport error of that call, or a response with a status of 400 or more, sets
  \<open>Dead\<close>, and nothing else does. So the result a probe task sends carries no error and
  is dead exactly when the probe failed, and a run whose results all come from probe
  tasks is not aborted by them, whatever the probes found.
\<close>

theorem ValidateBookmark_never_fails:
  "snd (ValidateBookmark ex b) = None \<and>
   Dead (fst (ValidateBookmark ex b)) = (Dead b \<or> probe_failed ex) \<and>
   err (probe_task ex i u) = None \<and>
   dead (probe_task ex i u) = probe_failed ex \<and>
   fst (ValidateAndUpdateBookmarks no_faults
          (map (\<lambda>(ex, i, u). probe_task ex i u) probes) w) = None"
proof -
  have "\<forall>r\<in>set (map (\<lambda>(ex, i, u). probe_task ex i u) probes). err r = None"
    by (auto simp: probe_task_eq)
  from update_loop_probes[OF this]
  have "\<not> isl (update_loop no_faults 0 (map (\<lambda>(ex, i, u). probe_task ex i u) probes)
            (store w, stats_zero))" .
  then have "fst (ValidateAndUpdateBookmarks no_faults
          (map (\<lambda>(ex, i, u). probe_task ex i u) probes) w) = None"
    by (cases "update_loop no_faults 0 (map (\<lambda>(ex, i, u). probe_task ex i u) probes)
            (store w, stats_zero)")
       (auto simp: ValidateAndUpdateBookmarks_def no_faults_def)
  then show ?thesis
    by (simp add: ValidateBookmark_err ValidateBookmark_Dead probe_task_eq)
qed

text \<open>
  Claim C5. The result of a probe task has \<open>redirect\<close> set exactly when the client
  followed one or more redirects, and then \<open>redirectURL\<close> is the URL of the last
  redirected request, which is the request of the response when one was obtained (the
  final resolved URL). The URLs net/http hands to \<open>CheckRedirect\<close> are absolute, so
  never empty: under that condition \<open>redirectURL\<close> is non-empty whenever \<open>redirect\<close>
  is set.
\<close>

theorem probe_task_redirect:
  "redirect (probe_task ex i u) = (hops ex \<noteq> []) \<and>
   (hops ex \<noteq> [] \<longrightarrow> redirectURL (probe_task ex i u) = last (hops ex)) \<and>
   (hops ex \<noteq> [] \<longrightarrow> final ex = Inr code \<longrightarrow>
      snd (client_Get ex b) =
        Inr \<lparr>StatusCode = code, Request_URL = redirectURL (probe_task ex i u)\<rparr>) \<and>
   ('''' \<notin> set (hops ex) \<longrightarrow> redirect (probe_task ex i u) \<longrightarrow>
      redirectURL (probe_task ex i u) \<noteq> '''')"
proof -
  have "last (hops ex) \<noteq> ''''" if "'''' \<notin> set (hops ex)" "hops ex \<noteq> []"
  proof
    assume "last (hops ex) = ''''"
    moreover have "last (hops ex) \<in> set (hops ex)" using that(2) by simp
    ultimately show False using that(1) by simp
  qed
  then show ?thesis
    by (auto simp: probe_task_eq client_Get_eq)
qed

text \<open>
  The theorem at an exchange with two redirects and a final status 200.
\<close>

theorem probe_task_redirect_witness:
  "hops ex_redirect \<noteq> [] \<and> final ex_redirect = Inr 200 \<and> '''' \<notin> set (hops ex_redirect) \<and>
   redirect (probe_task ex_redirect 1 ''http://b.example/'') \<and>
   redirectURL (probe_task ex_redirect 1 ''http://b.example/'') = ''https://www.b.example/'' \<and>
   snd (client_Get ex_redirect Bookmark_zero) =
     Inr \<lparr>StatusCode = 200, Request_URL = ''https://www.b.example/''\<rparr>"
  using probe_task_redirect[of ex_redirect 1 "''http://b.example/''" 200 Bookmark_zero]
  by (simp add: ex_redirect_def)

text \<open>
  The theorem of claim C1 at a run on the four rows of \<open>db_mixed\<close> that receives the
  result of a dead probe of row 1 and then the scan error of the second row: the update
  of the first result is rolled back.
\<close>

theorem scan_error_aborts_run_witness:
  "(\<exists>r\<in>set [probe_task ex_timeout 1 ''http://b.example/'', scan_failure (Error ''sql: Scan error'')].
      err r \<noteq> None) \<and>
   fst (ValidateAndUpdateBookmarks scan_fails
     [probe_task ex_timeout 1 ''http://b.example/'', scan_failure (Error ''sql: Scan error'')]
     world_mixed) \<noteq> None \<and>
   snd (ValidateAndUpdateBookmarks scan_fails
     [probe_task ex_timeout 1 ''http://b.example/'', scan_failure (Error ''sql: Scan error'')]
     world_mixed) = world_mixed"
  using scan_error_aborts_run[of
      "[probe_task ex_timeout 1 ''http://b.example/'', scan_failure (Error ''sql: Scan error'')]"
      scan_fails world_mixed]
  by (simp add: scan_failure_def)

lemma Sprintf_d_0: "Sprintf_d 0 = ''0''"
  by code_simp

lemma Sprintf_d_1: "Sprintf_d 1 = ''1''"
  by code_simp

lemma Sprintf_d_1234: "Sprintf_d 1234 = ''1234''"
  by code_simp

text \<open>
  The report of a run that received nothing.
\<close>

lemma report_none:
  "report stats_zero =
     ''Bookmark Validation Report'' @ newline @
     ''========================'' @ newline @ newline @
     ''Total URLs processed: 0'' @ newline @
     ''Valid URLs: 0'' @ newline @
     ''Dead links: 0'' @ newline @
     ''Redirects: 0'' @ newline"
  by (simp add: report_def stats_zero_def Sprintf_d_0)

text \<open>
  Claim C6 fails on the code: \<open>close(results)\<close> is deferred in the producer and runs
  as soon as \<open>rows.Next()\<close> returns false; nothing waits for the probe tasks that were
  launched. With one stored row, the schedule in which the producer's loop ends before
  the probe has answered closes the channel with no result sent and one task in flight;
  the run commits and reports a total of 0.
\<close>

theorem validation_run_closes_before_result:
  "run_schedule no_faults (\<lambda>_. ex_ok) [NextRow, LoopEnds] (pool_init (store world_one)) =
     Some \<lparr>rows_left = [], rows_read = 1, workQueue = 9,
            in_flight = [probe_task ex_ok 1 ''http://b.example/''], closed = True,
            sent = [], panicked = False\<rparr> \<and>
   validation_run no_faults (\<lambda>_. ex_ok) [NextRow, LoopEnds] world_one =
     Some (None, world_one\<lparr>files := (files world_one)(reportPath \<mapsto> report stats_zero)\<rparr>)"
  by (simp add: validation_run_def pool_init_def ValidateAndUpdateBookmarks_def input_defs)

text \<open>
  For comparison, the schedule in which the task sends before the loop ends: one update,
  a total of 1.
\<close>

lemma validation_run_result_first:
  "validation_run no_faults (\<lambda>_. ex_ok) [NextRow, TaskSends 0, LoopEnds] world_one =
     Some (None,
       \<lparr>store = db_one\<lparr>bookmarks_table :=
           [row_old\<lparr>redirect_url := Some ''''\<rparr>]\<rparr>,
        files = [reportPath \<mapsto> report \<lparr>stats_total = 1, stats_dead = 0, stats_redirects = 0, stats_valid = 1\<rparr>]\<rparr>)"
  by (simp add: validation_run_def pool_init_def ValidateAndUpdateBookmarks_def input_defs
      probe_task_eq probe_failed_def ex_ok_def exec_update_def count_result_def stats_zero_def)

text \<open>
  After the early close the task in flight can only send on the closed channel, which
  panics.
\<close>

lemma late_send_panics:
  "map_option panicked
     (run_schedule no_faults (\<lambda>_. ex_ok) [NextRow, LoopEnds, TaskSends 0]
        (pool_init (store world_one))) = Some True"
  by (simp add: pool_init_def input_defs)

text \<open>
  Under every schedule each row is unread, in flight or sent: the results sent when the
  channel closes fall short of the number of rows by the tasks then in flight.
\<close>

lemma step_conserves:
  "step fl net ev p = Some p' \<Longrightarrow>
   length (sent p') + length (in_flight p') + length (rows_left p') =
   length (sent p) + length (in_flight p) + length (rows_left p)"
  by (cases ev) (auto split: list.splits option.splits if_splits)

lemma run_schedule_conserves:
  "run_schedule fl net evs p = Some p' \<Longrightarrow>
   length (sent p') + length (in_flight p') + length (rows_left p') =
   length (sent p) + length (in_flight p) + length (rows_left p)"
proof (induction evs arbitrary: p)
  case Nil
  then show ?case by simp
next
  case (Cons ev evs)
  then show ?case
    by (auto split: option.splits dest: step_conserves)
qed

section \<open>ExportValidBookmarks: valid rows only\<close>















end
